theory Spec2Isabelle
  imports Complex_Main "HOL-Library.Multiset" "HOL-Library.Char_ord"
    "HOL-Library.List_Lexorder" "HOL-Library.Product_Lexorder"
begin

section \<open>JavaScript numbers\<close>

text \<open>
  The filters of \<^verbatim>\<open>.eleventy.js\<close> compute with JavaScript numbers, which are
  binary64. Rounding comes first: a non-zero real is scaled so that its integer part
  has 53 bits (fewer below the normal range, where the exponent stays at \<open>-1022\<close>),
  rounded to the nearest integer, a tie going to the even one, and scaled back.
\<close>

definition rne :: "real \<Rightarrow> int" where
  "rne m =
     (let f = \<lfloor>m\<rfloor>; d = m - of_int f
      in if d < 1 / 2 then f
         else if 1 / 2 < d then f + 1
         else if even f then f else f + 1)"

definition round64 :: "real \<Rightarrow> real" where
  "round64 x =
     (if x = 0 then 0
      else let e = max \<lfloor>log 2 \<bar>x\<bar>\<rfloor> (- 1022)
           in sgn x * of_int (rne (\<bar>x\<bar> * 2 powr of_int (52 - e))) * 2 powr of_int (e - 52))"

definition is_binary64 :: "real \<Rightarrow> bool" where
  "is_binary64 x = (round64 x = x)"

text \<open>
  A number is a finite value (\<open>Fin 0\<close> is \<open>+0\<close>), the negative zero, one of the two
  infinities, or NaN.
\<close>

datatype jsnum = Fin real | NegZero | PInf | NInf | NaN

fun sign_bit :: "jsnum \<Rightarrow> bool" where
  "sign_bit (Fin x) = (x < 0)"
| "sign_bit NegZero = True"
| "sign_bit PInf = False"
| "sign_bit NInf = True"
| "sign_bit NaN = False"

fun num_val :: "jsnum \<Rightarrow> real" where
  "num_val (Fin x) = x"
| "num_val _ = 0"

definition is_inf :: "jsnum \<Rightarrow> bool" where
  "is_inf v = (v = PInf \<or> v = NInf)"

definition is_zero :: "jsnum \<Rightarrow> bool" where
  "is_zero v = (v = Fin 0 \<or> v = NegZero)"

definition inf_of :: "bool \<Rightarrow> jsnum" where
  "inf_of negative = (if negative then NInf else PInf)"

definition zero_of :: "bool \<Rightarrow> jsnum" where
  "zero_of negative = (if negative then NegZero else Fin 0)"

text \<open>
  The number an exact non-zero result becomes: rounded, an infinity when the rounded
  value reaches \<open>2 ^ 1024\<close>, a zero of the result's sign when it rounds to nothing.
\<close>

definition js_round :: "real \<Rightarrow> jsnum" where
  "js_round x =
     (let y = round64 x
      in if 2 ^ 1024 \<le> \<bar>y\<bar> then inf_of (x < 0)
         else if y = 0 then zero_of (x < 0)
         else Fin y)"

text \<open>A decimal literal of the source denotes the binary64 number nearest to it.\<close>

definition js_lit :: "real \<Rightarrow> jsnum" where
  "js_lit x = js_round x"

text \<open>
  \<^verbatim>\<open>a / b\<close>. The sign of the result is the exclusive or of the signs; NaN comes
  from a NaN operand, from two infinities and from two zeros.
\<close>

definition js_div :: "jsnum \<Rightarrow> jsnum \<Rightarrow> jsnum" where
  "js_div a b =
     (if a = NaN \<or> b = NaN then NaN
      else if is_inf a then (if is_inf b then NaN else inf_of (sign_bit a \<noteq> sign_bit b))
      else if is_inf b then zero_of (sign_bit a \<noteq> sign_bit b)
      else if is_zero a then (if is_zero b then NaN else zero_of (sign_bit a \<noteq> sign_bit b))
      else if is_zero b then inf_of (sign_bit a \<noteq> sign_bit b)
      else js_round (num_val a / num_val b))"

text \<open>\<^verbatim>\<open>a < b\<close>: false as soon as one side is NaN; the two zeros are equal.\<close>

fun js_lt :: "jsnum \<Rightarrow> jsnum \<Rightarrow> bool" where
  "js_lt NaN _ = False"
| "js_lt _ NaN = False"
| "js_lt PInf _ = False"
| "js_lt _ NInf = False"
| "js_lt NInf _ = True"
| "js_lt _ PInf = True"
| "js_lt a b = (num_val a < num_val b)"

text \<open>\<^verbatim>\<open>a >= b\<close>: false as soon as one side is NaN, otherwise the negation of \<^verbatim>\<open>a < b\<close>.\<close>

fun js_ge :: "jsnum \<Rightarrow> jsnum \<Rightarrow> bool" where
  "js_ge NaN _ = False"
| "js_ge _ NaN = False"
| "js_ge a b = (\<not> js_lt a b)"

section \<open>The aspect-ratio filter \<^verbatim>\<open>getAspectClass\<close>\<close>

text \<open>
  \<^verbatim>\<open>Image(imagePath, options)\<close> belongs to the image plugin. It is a parameter of
  the model (\<open>ImageFn\<close>, since \<open>Image\<close> is taken in HOL): it receives the path and
  the options and either throws (the promise is rejected) or returns the metadata, an
  object with one list of image statistics per requested format. Only the format
  \<^verbatim>\<open>jpeg\<close> is requested and read.
\<close>

datatype js_error = JsError string

record image_stat =
  width :: jsnum
  height :: jsnum

record metadata =
  jpeg :: "image_stat list"

record image_options =
  widths :: "nat list"
  formats :: "string list"
  outputDir :: string
  dryRun :: bool

type_synonym image_fn = "string \<Rightarrow> image_options \<Rightarrow> js_error + metadata"

text \<open>
  Lines 133 to 142 of the filter: the label starts as \<^verbatim>\<open>"aspect-landscape"\<close> and the
  chain of comparisons overwrites it.
\<close>

definition cssClass :: "jsnum \<Rightarrow> string" where
  "cssClass ratio =
     (if js_lt ratio (js_lit 0.7) then ''aspect-portrait''
      else if js_ge ratio (js_lit 0.7) \<and> js_lt ratio (js_lit 1.3) then ''aspect-square''
      else if js_ge ratio (js_lit 1.3) \<and> js_lt ratio (js_lit 1.8) then ''aspect-landscape''
      else if js_ge ratio (js_lit 1.8) then ''aspect-panorama''
      else ''aspect-landscape'')"

text \<open>
  The filter reports its result through \<^verbatim>\<open>callback(err, value)\<close>; the model returns
  the pair of arguments the callback receives, \<open>None\<close> for \<^verbatim>\<open>null\<close>. Inside the
  \<^verbatim>\<open>try\<close> block two things throw: the call of \<^verbatim>\<open>Image\<close>, and the read of
  \<^verbatim>\<open>img.width\<close> when \<^verbatim>\<open>metadata.jpeg[0]\<close> is \<^verbatim>\<open>undefined\<close> (an empty list).
  Both land in the \<^verbatim>\<open>catch\<close> branch.
\<close>

definition getAspectClass :: "image_fn \<Rightarrow> string \<Rightarrow> js_error option \<times> string" where
  "getAspectClass ImageFn imagePath =
     (case ImageFn imagePath
             \<lparr>widths = [1], formats = [''jpeg''], outputDir = ''./_site/img/'',
              dryRun = True\<rparr> of
        Inl e \<Rightarrow> (None, ''aspect-landscape'')
      | Inr md \<Rightarrow>
          (case jpeg md of
             [] \<Rightarrow> (None, ''aspect-landscape'')
           | img # _ \<Rightarrow> (None, cssClass (js_div (width img) (height img)))))"

text \<open>
  Modelled from the spec: the image plugin, which is not under src/. The specification
  leaves it a black box that produces the renditions asked for; the rule below is the
  plugin's own. For a raster file of \<open>W\<close> by \<open>H\<close> pixels the statistics hold one entry
  per requested width: the requested width (the width of the file when none is given or
  the file is narrower) and the height scaled to it and rounded down. The plugin also
  sorts the widths and drops repeated ones, which a single width does not show. A path
  with no file behind it throws, and so does a file without pixels, which is no image.
\<close>

definition rendition :: "nat \<Rightarrow> nat \<Rightarrow> nat \<Rightarrow> image_stat" where
  "rendition W H w =
     (let w' = (if w = 0 \<or> W < w then W else w)
      in \<lparr>width = Fin (real w'), height = Fin (real (w' * H div W))\<rparr>)"

definition eleventy_img :: "(string \<rightharpoonup> nat \<times> nat) \<Rightarrow> image_fn" where
  "eleventy_img files src opts =
     (case files src of
        None \<Rightarrow> Inl (JsError ''ENOENT'')
      | Some (W, H) \<Rightarrow>
          if W = 0 \<or> H = 0 then Inl (JsError ''invalid image'')
          else Inr \<lparr>jpeg = (if ''jpeg'' \<in> set (formats opts)
                            then map (rendition W H) (widths opts) else [])\<rparr>)"

section \<open>The filter \<^verbatim>\<open>readableDate\<close>\<close>

text \<open>
  A JavaScript \<^verbatim>\<open>Date\<close> holds a time value: milliseconds since the epoch, or NaN for
  an invalid date.
\<close>

datatype js_date = ValidDate int | InvalidDate

text \<open>
  A time zone gives the offset from UTC, in minutes, at each instant. The zone of the
  process is part of the environment the filter runs in.
\<close>

type_synonym zone = "int \<Rightarrow> int"

definition utc :: zone where
  "utc = (\<lambda>ts. 0)"

record settings =
  defaultZone :: zone

datatype dateTime = DateTime int zone | Invalid

text \<open>
  Modelled from the spec: \<^verbatim>\<open>DateTime.fromJSDate\<close> of the date library, which is not
  under src/. The specification has the formatter normalise to UTC whatever the time
  zone of the process: a zone passed in the options stands in for the default zone of
  the process, which is used only when no zone is passed. The specification is silent
  on an invalid date; the model hands it on to the formatter as a value of its own.
\<close>

definition fromJSDate :: "settings \<Rightarrow> js_date \<Rightarrow> zone option \<Rightarrow> dateTime" where
  "fromJSDate env date zoneOpt =
     (case date of
        InvalidDate \<Rightarrow> Invalid
      | ValidDate ts \<Rightarrow>
          DateTime ts (case zoneOpt of None \<Rightarrow> defaultZone env | Some z \<Rightarrow> z))"

text \<open>
  The filter itself. \<^verbatim>\<open>toFormat\<close> of the date library is a parameter: a function of
  the \<^verbatim>\<open>DateTime\<close> and the pattern.
\<close>

definition readableDate ::
  "(dateTime \<Rightarrow> string \<Rightarrow> string) \<Rightarrow> settings \<Rightarrow> js_date \<Rightarrow> string" where
  "readableDate toFormat env dateObj =
     toFormat (fromJSDate env dateObj (Some utc)) ''yyyy-MM-dd''"

section \<open>The collections\<close>

text \<open>
  \<^verbatim>\<open>collectionApi.getFilteredByGlob\<close> belongs to the site generator; the collection API
  is a parameter of the two builders. \<^verbatim>\<open>Array.prototype.reverse\<close> returns the array
  reversed.
\<close>

record 'a collectionApi =
  getFilteredByGlob :: "string \<Rightarrow> 'a list"

definition posts :: "'a collectionApi \<Rightarrow> 'a list" where
  "posts collectionApi = rev (getFilteredByGlob collectionApi ''src/posts/*.md'')"

definition photos :: "'a collectionApi \<Rightarrow> 'a list" where
  "photos collectionApi = rev (getFilteredByGlob collectionApi ''src/photos/*.md'')"

text \<open>
  The collection builder as the specification words it: given a glob pattern, the
  matching content items in listing order, reversed.
\<close>

definition collection_builder_spec :: "string \<Rightarrow> 'a collectionApi \<Rightarrow> 'a list" where
  "collection_builder_spec glob api = rev (getFilteredByGlob api glob)"

text \<open>
  A content item, as far as the collections look at it: the path of its file, which
  starts with \<^verbatim>\<open>./\<close>, and its date in milliseconds since the epoch.
\<close>

record item =
  inputPath :: string
  date :: int





section \<open>The filter \<^verbatim>\<open>random\<close>\<close>

text \<open>
  \<^verbatim>\<open>array[k]\<close> for a number \<open>k\<close>: the element at an index inside the array,
  \<^verbatim>\<open>undefined\<close> (\<open>None\<close>) everywhere else. Nothing is thrown.
\<close>

definition js_index :: "'a list \<Rightarrow> int \<Rightarrow> 'a option" where
  "js_index array k =
     (if 0 \<le> k \<and> k < int (length array) then Some (array ! nat k) else None)"

text \<open>
  \<^verbatim>\<open>Math.floor(Math.random() * array.length)\<close>. The value \<open>r\<close> that
  \<^verbatim>\<open>Math.random()\<close> returns is a parameter: a binary64 number with \<open>0 \<le> r < 1\<close>.
  The product is rounded to binary64 before the floor is taken; with \<open>r\<close> below 1 and
  a length it is finite and not negative, so it is a real here.
\<close>

definition random_index :: "real \<Rightarrow> 'a list \<Rightarrow> int" where
  "random_index r array = \<lfloor>round64 (r * real (length array))\<rfloor>"

definition random_filter :: "real \<Rightarrow> 'a list \<Rightarrow> 'a option" where
  "random_filter r array = js_index array (random_index r array)"

section \<open>Rounding to binary64\<close>

text \<open>
  Rounding moves a number of the normal range by at most the fraction \<open>2 powr -53\<close> of
  it, and a smaller one by at most \<open>2 powr -1075\<close>. Where the exponent is known the
  rounded value can be computed.
\<close>

lemma rne_err: "\<bar>of_int (rne m) - m\<bar> \<le> 1 / 2"
proof -
  have "of_int \<lfloor>m\<rfloor> \<le> m" "m < of_int \<lfloor>m\<rfloor> + 1" by linarith+
  then show ?thesis
    unfolding rne_def Let_def by (auto simp: abs_le_iff)
qed

lemma rne_of_int: "rne (of_int k) = k"
  by (simp add: rne_def)

lemma rne_nonneg: "0 \<le> m \<Longrightarrow> 0 \<le> rne m"
  unfolding rne_def Let_def by (auto simp: zero_le_floor)

lemma round64_pos:
  assumes "0 < x"
  shows "round64 x = of_int (rne (x * 2 powr of_int (52 - max \<lfloor>log 2 x\<rfloor> (- 1022))))
                       * 2 powr of_int (max \<lfloor>log 2 x\<rfloor> (- 1022) - 52)"
  using assms by (simp add: round64_def Let_def)

lemma round64_at:
  assumes "2 powr of_int e \<le> x" and "x < 2 powr of_int (e + 1)" and "- 1022 \<le> e"
  shows "round64 x = of_int (rne (x * 2 powr of_int (52 - e))) * 2 powr of_int (e - 52)"
proof -
  have "(0::real) < 2 powr of_int e" by simp
  with assms(1) have pos: "0 < x" by linarith
  then have "\<lfloor>log 2 x\<rfloor> = e"
    using assms by (simp add: floor_log_eq_powr_iff)
  with assms(3) pos show ?thesis by (simp add: round64_pos max_def)
qed

lemma round64_err_gen:
  assumes "0 < x"
  shows "\<bar>round64 x - x\<bar> \<le> 2 powr of_int (max \<lfloor>log 2 x\<rfloor> (- 1022)) / 2 ^ 53"
proof -
  define e where "e = max \<lfloor>log 2 x\<rfloor> (- 1022)"
  define m where "m = x * 2 powr of_int (52 - e)"
  have r: "round64 x = of_int (rne m) * 2 powr of_int (e - 52)"
    using assms by (simp add: round64_pos e_def m_def)
  have x: "x = m * 2 powr of_int (e - 52)"
    unfolding m_def by (simp add: powr_add[symmetric])
  have "\<bar>round64 x - x\<bar> = \<bar>of_int (rne m) - m\<bar> * 2 powr of_int (e - 52)"
    by (subst x, subst r) (simp add: left_diff_distrib[symmetric] abs_mult)
  also have "\<dots> \<le> (1 / 2) * 2 powr of_int (e - 52)"
    by (rule mult_right_mono [OF rne_err]) simp
  also have "\<dots> = 2 powr of_int e / 2 ^ 53"
    by (simp add: powr_diff)
  finally show ?thesis unfolding e_def .
qed

lemma round64_err:
  assumes "2 powr (- 1022) \<le> x"
  shows "\<bar>round64 x - x\<bar> \<le> x / 2 ^ 53"
proof -
  have "(0::real) < 2 powr (- 1022)" by simp
  with assms have pos: "0 < x" by linarith
  have "- 1022 \<le> log 2 x"
    using assms pos by (simp add: le_log_iff)
  then have "- 1022 \<le> \<lfloor>log 2 x\<rfloor>"
    by (simp add: le_floor_iff)
  then have e: "max \<lfloor>log 2 x\<rfloor> (- 1022) = \<lfloor>log 2 x\<rfloor>" by simp
  from pos have "2 powr of_int \<lfloor>log 2 x\<rfloor> \<le> x"
    using floor_log_eq_powr_iff [of x 2 "\<lfloor>log 2 x\<rfloor>"] by simp
  then have "2 powr of_int \<lfloor>log 2 x\<rfloor> / 2 ^ 53 \<le> x / 2 ^ 53"
    by (simp add: divide_right_mono)
  with round64_err_gen [OF pos] e show ?thesis by simp
qed

lemma round64_err_sub:
  assumes "0 < x" and "x < 2 powr (- 1022)"
  shows "\<bar>round64 x - x\<bar> \<le> 2 powr (- 1075)"
proof -
  have "log 2 x < - 1022"
    using assms by (simp add: log_less_iff)
  then have "\<lfloor>log 2 x\<rfloor> < - 1022"
    by (simp add: floor_less_iff)
  then have e: "max \<lfloor>log 2 x\<rfloor> (- 1022) = - 1022" by simp
  have "(2::real) powr of_int (- 1022) / 2 ^ 53 = 2 powr (- 1075)"
    by (simp add: powr_minus field_simps flip: power_add)
  with round64_err_gen [OF assms(1)] e show ?thesis by simp
qed

lemma round64_nonneg: "0 \<le> x \<Longrightarrow> 0 \<le> round64 x"
  by (cases "x = 0") (simp_all add: round64_def Let_def rne_nonneg)

lemma round64_zero: "round64 0 = 0"
  by (simp add: round64_def)

lemma js_round_normal:
  assumes "2 powr (- 1022) \<le> x" and "x \<le> 2 ^ 1023"
  shows "js_round x = Fin (round64 x)" and "0 < round64 x"
proof -
  have "(0::real) < 2 powr (- 1022)" by simp
  with assms have pos: "0 < x" by linarith
  note e = round64_err [OF assms(1)]
  have "x / 2 ^ 53 < x" using pos by (simp add: field_simps)
  with e show r: "0 < round64 x" by linarith
  have "round64 x < 2 ^ 1024"
  proof -
    have "round64 x \<le> x + x / 2 ^ 53" using e by linarith
    also have "\<dots> \<le> 2 ^ 1023 + 2 ^ 1023 / 2 ^ 53"
      using assms(2) by (intro add_mono divide_right_mono) simp_all
    also have "\<dots> < (2::real) ^ 1024" by simp
    finally show ?thesis .
  qed
  with r show "js_round x = Fin (round64 x)"
    by (simp add: js_round_def Let_def)
qed

lemma pow_m1022_small: "(2::real) powr (- 1022) \<le> 1 / 2 ^ 48"
proof -
  have "(2::real) powr (- 1022) \<le> 2 powr (- 48)"
    by (rule powr_mono) simp_all
  also have "\<dots> = 1 / 2 ^ 48" by (simp add: powr_minus field_simps)
  finally show ?thesis .
qed

text \<open>The three thresholds of the aspect-ratio filter are finite numbers.\<close>

lemma js_lit_thresholds:
  "js_lit 0.7 = Fin (round64 0.7)" "js_lit 1.3 = Fin (round64 1.3)" "js_lit 1.8 = Fin (round64 1.8)"
  unfolding js_lit_def
  using pow_m1022_small by (auto intro!: js_round_normal(1))

lemma round64_near:
  assumes "1 / 2 \<le> c" 
  shows "c - c / 2 ^ 53 \<le> round64 c \<and> round64 c \<le> c + c / 2 ^ 53"
proof -
  have "(2::real) powr (- 1022) \<le> 1 / 2 ^ 48" by (rule pow_m1022_small)
  also have "\<dots> \<le> 1 / 2" by simp
  finally have "2 powr (- 1022) \<le> c" using assms by linarith
  from round64_err [OF this] show ?thesis by linarith
qed

lemma thresholds_ordered:
  "round64 0.7 < round64 1.3" "round64 1.3 < round64 1.8"
  using round64_near [of "0.7"] round64_near [of "1.3"] round64_near [of "1.8"] by simp_all

lemma js_lit_near:
  assumes "1 / 2 \<le> c" and "c \<le> 2"
  shows "js_lit c = Fin (round64 c)"
proof -
  have "(2::real) powr (- 1022) \<le> 1 / 2 ^ 48" by (rule pow_m1022_small)
  also have "\<dots> \<le> 1 / 2" by simp
  finally have lo: "2 powr (- 1022) \<le> c" using assms by linarith
  have "(2::real) \<le> 2 ^ 1023" by simp
  with assms have hi: "c \<le> 2 ^ 1023" by linarith
  from js_round_normal(1) [OF lo hi] show ?thesis by (simp add: js_lit_def)
qed

lemma js_lit_exact:
  "js_lit 1.0 = Fin 1" "js_lit 0.5 = Fin (1 / 2)" "js_lit 1.5 = Fin (3 / 2)" "js_lit 2.0 = Fin 2"
  using round64_at [of 0 1] round64_at [of "-1" "1/2"] round64_at [of 0 "3/2"] round64_at [of 1 2]
  by (simp_all add: js_lit_near powr_minus rne_def)

text \<open>
  Two numbers of the normal range that are equal, or further apart than rounding can
  move them, compare after rounding as they do before. Ratios of pixel counts up to
  \<open>2 ^ 48\<close> are that far from the three thresholds.
\<close>

lemma round64_less_iff:
  assumes "2 powr (- 1022) \<le> x" and "2 powr (- 1022) \<le> t"
    and gap: "x \<noteq> t \<Longrightarrow> (x + t) / 2 ^ 53 < \<bar>x - t\<bar>"
  shows "(round64 x < round64 t) = (x < t)"
proof (cases "x = t")
  case True
  then show ?thesis by simp
next
  case False
  note ex = round64_err [OF assms(1)] and et = round64_err [OF assms(2)]
  from False gap have g: "x / 2 ^ 53 + t / 2 ^ 53 < \<bar>x - t\<bar>"
    by (simp add: add_divide_distrib)
  show ?thesis
  proof (cases "x < t")
    case True
    with ex et g show ?thesis by linarith
  next
    case False
    with ex et g show ?thesis by linarith
  qed
qed

lemma ratio_gap:
  fixes w h p q :: nat
  assumes "0 < h" and "0 < q" and "w * q + p * h < 2 ^ 53"
    and ne: "real w / real h \<noteq> real p / real q"
  shows "(real w / real h + real p / real q) / 2 ^ 53 < \<bar>real w / real h - real p / real q\<bar>"
proof -
  let ?hq = "real h * real q"
  have hq: "0 < ?hq" using assms by simp
  have sum: "real w / real h + real p / real q = real (w * q + p * h) / ?hq"
    using assms by (simp add: field_simps)
  have diff: "real w / real h - real p / real q = (real_of_int (int (w * q) - int (p * h))) / ?hq"
    using assms by (simp add: field_simps)
  have "int (w * q) - int (p * h) \<noteq> 0"
  proof
    assume "int (w * q) - int (p * h) = 0"
    then have "real w / real h - real p / real q = 0" by (simp only: diff)
    with ne show False by simp
  qed
  then have "1 \<le> \<bar>int (w * q) - int (p * h)\<bar>" by linarith
  then have one: "1 \<le> \<bar>real_of_int (int (w * q) - int (p * h))\<bar>"
    by (metis of_int_1_le_iff of_int_abs)
  have "real (w * q + p * h) < 2 ^ 53"
    using assms(3) by (metis of_nat_less_iff of_nat_numeral of_nat_power)
  then have "real (w * q + p * h) / 2 ^ 53 < 1" by simp
  with one have "real (w * q + p * h) / 2 ^ 53 < \<bar>real_of_int (int (w * q) - int (p * h))\<bar>"
    by linarith
  then have "real (w * q + p * h) / 2 ^ 53 / ?hq
      < \<bar>real_of_int (int (w * q) - int (p * h))\<bar> / ?hq"
    using hq by (rule divide_strict_right_mono)
  moreover have "real (w * q + p * h) / 2 ^ 53 / ?hq = real (w * q + p * h) / ?hq / 2 ^ 53"
    by simp
  moreover have "\<bar>real_of_int (int (w * q) - int (p * h))\<bar> / ?hq
      = \<bar>real_of_int (int (w * q) - int (p * h)) / ?hq\<bar>"
    using hq by (simp only: abs_divide abs_of_pos)
  ultimately show ?thesis
    unfolding sum diff by (simp only:)
qed

lemma normal_of_ge:
  fixes c :: real
  assumes "1 / 2 ^ 48 \<le> c"
  shows "2 powr (- 1022) \<le> c"
  using pow_m1022_small assms by (rule order_trans)

lemma pixel_ratio_range:
  fixes w h :: nat
  assumes "0 < w" and "0 < h" and "w \<le> 2 ^ 48" and "h \<le> 2 ^ 48"
  shows "1 / 2 ^ 48 \<le> real w / real h" and "real w / real h \<le> 2 ^ 48"
proof -
  from assms(1) have w1: "1 \<le> real w" by simp
  from assms(2) have h1: "1 \<le> real h" by simp
  from assms(3) have "real w \<le> real (2 ^ 48)" by (simp only: of_nat_le_iff)
  then have w2: "real w \<le> 2 ^ 48" by simp
  from assms(4) have "real h \<le> real (2 ^ 48)" by (simp only: of_nat_le_iff)
  then have h2: "real h \<le> 2 ^ 48" by simp
  have "1 / 2 ^ 48 \<le> 1 / real h"
    using h1 h2 by (intro divide_left_mono) simp_all
  also have "\<dots> \<le> real w / real h"
    using w1 h1 by (intro divide_right_mono) simp_all
  finally show "1 / 2 ^ 48 \<le> real w / real h" .
  have "real w / real h \<le> real w / 1"
    using w1 h1 by (intro divide_left_mono) simp_all
  with w2 show "real w / real h \<le> 2 ^ 48" by simp
qed

lemma binary64_agrees:
  fixes w h :: nat
  assumes "0 < w" and "0 < h" and "w \<le> 2 ^ 48" and "h \<le> 2 ^ 48"
  shows "(round64 (real w / real h) < round64 0.7) = (real w / real h < 0.7)
       \<and> (round64 (real w / real h) < round64 1.3) = (real w / real h < 1.3)
       \<and> (round64 (real w / real h) < round64 1.8) = (real w / real h < 1.8)"
proof -
  have x: "2 powr (- 1022) \<le> real w / real h"
    using pixel_ratio_range(1) [OF assms] by (rule normal_of_ge)
  have b: "w * 10 + p * h < 2 ^ 53" if "p \<le> 18" for p
  proof -
    have "w * 10 + p * h \<le> 2 ^ 48 * 10 + 18 * 2 ^ 48"
      using assms that by (intro add_mono mult_mono) simp_all
    also have "\<dots> < (2 ^ 53 :: nat)" by simp
    finally show ?thesis .
  qed
  have c: "(round64 (real w / real h) < round64 (real p / real 10))
      = (real w / real h < real p / real 10)" if "5 \<le> p" "p \<le> 18" for p
  proof (rule round64_less_iff [OF x])
    have "(1::real) / 2 ^ 48 \<le> 1 / 2" by simp
    also have "\<dots> \<le> real p / real 10" using that by simp
    finally show "2 powr (- 1022) \<le> real p / real 10"
      by (rule normal_of_ge)
    show "(real w / real h + real p / real 10) / 2 ^ 53
        < \<bar>real w / real h - real p / real 10\<bar>"
      if "real w / real h \<noteq> real p / real 10"
      using ratio_gap [OF assms(2) _ b that] \<open>p \<le> 18\<close> by simp
  qed
  from c [of 7] c [of 13] c [of 18] show ?thesis by simp
qed

lemma round64_small:
  assumes "0 < x" and "x \<le> 1 / 2"
  shows "0 \<le> round64 x" and "round64 x < round64 0.7" and "round64 x < 2 ^ 1024"
proof -
  show "0 \<le> round64 x" using assms by (simp add: round64_nonneg)
  have up: "round64 x \<le> 6 / 10"
  proof (cases "2 powr (- 1022) \<le> x")
    case True
    have "x / 2 ^ 53 \<le> 1 / 10" using assms by simp
    with round64_err [OF True] assms show ?thesis by linarith
  next
    case False
    then have "x < 2 powr (- 1022)" by simp
    from round64_err_sub [OF assms(1) this] have "round64 x \<le> x + 2 powr (- 1075)"
      by linarith
    moreover have "(2::real) powr (- 1075) \<le> 2 powr (- 48)"
      by (rule powr_mono) simp_all
    moreover have "(2::real) powr (- 48) = 1 / 2 ^ 48"
      by (simp add: powr_minus field_simps)
    ultimately show ?thesis using assms(2) by simp
  qed
  with round64_near [of "0.7"] show "round64 x < round64 0.7" by simp
  from up show "round64 x < 2 ^ 1024" by simp
qed








lemma double_07_binary64: "is_binary64 (3152519739159347 / 2 ^ 52)"
  using round64_at [of "-1" "3152519739159347 / 2 ^ 52"]
  by (simp add: is_binary64_def powr_minus rne_def)

lemma round64_07: "round64 0.7 = 3152519739159347 / 2 ^ 52"
  using round64_at [of "-1" "7/10"] by (simp add: powr_minus rne_def)

section \<open>Properties of the aspect-ratio filter\<close>

text \<open>On a finite ratio the chain is a cascade over the three rounded thresholds.\<close>

lemma cssClass_Fin:
  "cssClass (Fin x) =
     (if x < round64 0.7 then ''aspect-portrait''
      else if x < round64 1.3 then ''aspect-square''
      else if x < round64 1.8 then ''aspect-landscape''
      else ''aspect-panorama'')"
  unfolding cssClass_def js_lit_thresholds by simp

lemma cssClass_PInf: "cssClass PInf = ''aspect-panorama''"
  unfolding cssClass_def js_lit_thresholds by simp

lemma cssClass_NaN: "cssClass NaN = ''aspect-landscape''"
  by (simp add: cssClass_def)

text \<open>
  On the rounded ratio of two pixel counts up to \<open>2 ^ 48\<close> the chain gives the label
  that the exact ratio has against the exact decimal thresholds: the partition into
  portrait below 0.7, square from 0.7 to below 1.3, landscape from 1.3 to below 1.8
  and panorama from 1.8 on.
\<close>

lemma js_div_pixels:
  fixes w h :: nat
  assumes "0 < w" and "0 < h" and "w \<le> 2 ^ 48" and "h \<le> 2 ^ 48"
  shows "js_div (Fin (real w)) (Fin (real h)) = Fin (round64 (real w / real h))"
proof -
  note r = pixel_ratio_range [OF assms]
  have lo: "2 powr (- 1022) \<le> real w / real h"
    using r(1) by (rule normal_of_ge)
  have "(2::real) ^ 48 \<le> 2 ^ 1023" by simp
  with r(2) have hi: "real w / real h \<le> 2 ^ 1023" by linarith
  from assms(1,2) js_round_normal(1) [OF lo hi] show ?thesis
    by (simp add: js_div_def is_inf_def is_zero_def)
qed

lemma cssClass_pixels:
  fixes w h :: nat
  assumes "0 < w" and "0 < h" and "w \<le> 2 ^ 48" and "h \<le> 2 ^ 48"
  shows "cssClass (js_div (Fin (real w)) (Fin (real h))) =
     (if real w / real h < 0.7 then ''aspect-portrait''
      else if real w / real h < 1.3 then ''aspect-square''
      else if real w / real h < 1.8 then ''aspect-landscape''
      else ''aspect-panorama'')"
  using binary64_agrees [OF assms] by (simp only: js_div_pixels [OF assms] cssClass_Fin)

text \<open>
  Two places where binary64 shows. A quotient that is exactly the number the literal
  0.7 denotes is not below the threshold, though it is below \<open>7 / 10\<close>: the label is
  square. A division by a zero gives the infinity of the sign the zero has.
\<close>

lemma js_div_by_zero: "js_div (Fin 1) NegZero = NInf \<and> js_div (Fin 1) (Fin 0) = PInf"
  by (simp add: js_div_def is_inf_def is_zero_def inf_of_def)

lemma cssClass_double_07:
  "cssClass (js_div (Fin 3152519739159347) (Fin (2 ^ 52))) = ''aspect-square''
   \<and> (3152519739159347::real) / 2 ^ 52 < 0.7"
proof -
  let ?q = "(3152519739159347::real) / 2 ^ 52"
  have "1 / 2 ^ 48 \<le> ?q" by simp
  then have lo: "2 powr (- 1022) \<le> ?q" by (rule normal_of_ge)
  have hi: "?q \<le> 2 ^ 1023" by simp
  have "round64 ?q = ?q"
    using double_07_binary64 by (simp only: is_binary64_def)
  with js_round_normal(1) [OF lo hi] have "js_round ?q = Fin ?q" by simp
  then have d: "js_div (Fin 3152519739159347) (Fin (2 ^ 52)) = Fin ?q"
    by (simp add: js_div_def is_inf_def is_zero_def)
  have "cssClass (Fin ?q) = ''aspect-square''"
    using round64_near [of "1.3"] by (simp add: cssClass_Fin round64_07)
  with d show ?thesis by simp
qed

lemma cssClass_unit_fraction:
  fixes k :: nat
  assumes "2 \<le> k"
  shows "cssClass (js_div (Fin 1) (Fin (real k))) = ''aspect-portrait''"
proof -
  have x: "0 < 1 / real k" "1 / real k \<le> 1 / 2"
    using assms by (simp_all add: field_simps)
  note s = round64_small [OF x]
  from assms have d: "js_div (Fin 1) (Fin (real k)) = js_round (1 / real k)"
    by (simp add: js_div_def is_inf_def is_zero_def)
  from s have "js_round (1 / real k) = Fin (round64 (1 / real k))"
    by (simp add: js_round_def Let_def zero_of_def)
  with d s(2) show ?thesis by (simp add: cssClass_Fin)
qed

lemma cssClass_one: "cssClass (js_div (Fin 1) (Fin 1)) = ''aspect-square''"
  using cssClass_pixels [of 1 1] by simp

text \<open>
  What the filter receives for a file. It asks for the rendition of width 1, so the
  plugin reports the width 1 and the height \<open>H div W\<close>, not the \<open>W\<close> and \<open>H\<close> of the
  file.
\<close>

lemma eleventy_img_reply:
  assumes "files src = Some (W, H)" and "0 < W" and "0 < H"
  shows "eleventy_img files src
           \<lparr>widths = [1], formats = [''jpeg''], outputDir = d, dryRun = True\<rparr>
         = Inr \<lparr>jpeg = [\<lparr>width = Fin 1, height = Fin (real (H div W))\<rparr>]\<rparr>"
  using assms by (simp add: eleventy_img_def rendition_def Let_def)

lemma getAspectClass_wider_than_tall:
  assumes "files imagePath = Some (W, H)" and "0 < H" and "H < W"
  shows "getAspectClass (eleventy_img files) imagePath = (None, ''aspect-panorama'')"
proof -
  from assms have "0 < W" by simp
  from eleventy_img_reply [of files imagePath W H "''./_site/img/''", OF assms(1) this assms(2)]
    assms(3) show ?thesis
    by (simp add: getAspectClass_def js_div_def is_inf_def is_zero_def inf_of_def cssClass_PInf)
qed

text \<open>
  The label of every raster file: panorama when the file is wider than tall, square
  when it is at least as tall as wide and less than twice as tall, portrait from there
  on. No file is labelled landscape.
\<close>

lemma getAspectClass_file:
  assumes "files imagePath = Some (W, H)" and "0 < W" and "0 < H"
  shows "getAspectClass (eleventy_img files) imagePath =
     (None, if H < W then ''aspect-panorama''
            else if H < 2 * W then ''aspect-square''
            else ''aspect-portrait'')"
proof -
  note reply = eleventy_img_reply [of files imagePath W H "''./_site/img/''", OF assms]
  consider "H < W" | "W \<le> H" "H < 2 * W" | "2 * W \<le> H" by linarith
  then show ?thesis
  proof cases
    case 1
    with assms getAspectClass_wider_than_tall [of files imagePath W H] show ?thesis by simp
  next
    case 2
    then have "H div W = 1" using assms(2)
      by (simp add: div_nat_eqI)
    with reply 2 cssClass_one show ?thesis
      by (simp add: getAspectClass_def)
  next
    case 3
    then have "2 \<le> H div W" using assms(2)
      by (simp add: less_eq_div_iff_mult_less_eq mult.commute)
    from cssClass_unit_fraction [OF this] reply 3 show ?thesis
      by (simp add: getAspectClass_def)
  qed
qed

text \<open>
  Claim C1. The claim has the filter label an image by the ratio of its width to its
  height: below 0.7 portrait, from 0.7 to below 1.3 square, from 1.3 to below 1.8
  landscape, from 1.8 on panorama. The code does not do this for the image: it asks
  the plugin for the rendition of width 1 and divides the dimensions of that
  rendition. A file of 1200 by 800 pixels has the ratio 1.5, in the landscape range;
  the plugin reports width 1 and height 0, the quotient is infinite and the filter
  answers panorama.
\<close>

theorem getAspectClass_wide_file:
  "getAspectClass (eleventy_img [''/photos/a.jpg'' \<mapsto> (1200, 800)]) ''/photos/a.jpg''
     = (None, ''aspect-panorama'')
   \<and> (13 / 10 \<le> (1200::real) / 800 \<and> (1200::real) / 800 < 18 / 10)"
  using getAspectClass_wider_than_tall [of "[''/photos/a.jpg'' \<mapsto> (1200, 800)]" "''/photos/a.jpg''" 1200 800]
  by simp

text \<open>
  Claim C2. On the sample ratios the classifier gives: 1.0 square, 0.5 portrait,
  1.5 landscape, 2.0 panorama; a lower bound belongs to its own range, so 0.7 is
  square and 1.3 is landscape. Each ratio is the number its decimal literal denotes.
\<close>

theorem cssClass_samples:
  "cssClass (js_lit 1.0) = ''aspect-square''
   \<and> cssClass (js_lit 0.5) = ''aspect-portrait''
   \<and> cssClass (js_lit 1.5) = ''aspect-landscape''
   \<and> cssClass (js_lit 2.0) = ''aspect-panorama''
   \<and> cssClass (js_lit 0.7) = ''aspect-square''
   \<and> cssClass (js_lit 1.3) = ''aspect-landscape''"
  using round64_near [of "0.7"] round64_near [of "1.3"] round64_near [of "1.8"]
    round64_near [of "1.0"] round64_near [of "0.5"] round64_near [of "1.5"] round64_near [of "2.0"]
  by (simp add: js_lit_near cssClass_Fin)

text \<open>
  Claim C3. When the dimensions cannot be determined, the filter hands the callback the
  label landscape and no error. The metadata step fails in two ways: the image plugin
  throws, or it reports no output for the format, and reading the width of the missing
  entry throws. On every input at all, the error argument of the callback is null.
\<close>

theorem getAspectClass_fails_soft:
  "(ImageFn imagePath
        \<lparr>widths = [1], formats = [''jpeg''], outputDir = ''./_site/img/'', dryRun = True\<rparr>
      = Inl e \<longrightarrow>
      getAspectClass ImageFn imagePath = (None, ''aspect-landscape''))
   \<and> (ImageFn imagePath
        \<lparr>widths = [1], formats = [''jpeg''], outputDir = ''./_site/img/'', dryRun = True\<rparr>
      = Inr md \<and> jpeg md = [] \<longrightarrow>
      getAspectClass ImageFn imagePath = (None, ''aspect-landscape''))
   \<and> fst (getAspectClass ImageFn imagePath) = None"
  by (simp add: getAspectClass_def split: sum.split list.split)

theorem getAspectClass_fails_soft_witness:
  "getAspectClass (\<lambda>p opts. Inl (JsError ''ENOENT'')) ''/photos/missing.jpg''
     = (None, ''aspect-landscape'')
   \<and> getAspectClass (\<lambda>p opts. Inr \<lparr>jpeg = []\<rparr>) ''/photos/missing.jpg''
     = (None, ''aspect-landscape'')"
  using getAspectClass_fails_soft
      [of "\<lambda>p opts. Inl (JsError ''ENOENT'')" "''/photos/missing.jpg''" "JsError ''ENOENT''"]
    getAspectClass_fails_soft
      [of "\<lambda>p opts. Inr \<lparr>jpeg = []\<rparr>" "''/photos/missing.jpg''" _ "\<lparr>jpeg = []\<rparr>"]
  by simp

text \<open>A path with no file behind it is such a failure of the modelled plugin.\<close>

lemma getAspectClass_missing_file:
  "files imagePath = None \<Longrightarrow>
     getAspectClass (eleventy_img files) imagePath = (None, ''aspect-landscape'')"
  by (simp add: getAspectClass_def eleventy_img_def)

text \<open>
  Claim C10. The filter is total on a ratio that is not a number. When the division of
  the reported width by the reported height is NaN, no comparison of the chain holds
  and the callback receives the label the variable was initialised with, landscape, and
  no error. Width 0 and height 0 give such a ratio.
\<close>

theorem getAspectClass_NaN:
  "js_div (Fin 0) (Fin 0) = NaN
   \<and> (ImageFn imagePath
        \<lparr>widths = [1], formats = [''jpeg''], outputDir = ''./_site/img/'', dryRun = True\<rparr>
      = Inr md \<and> jpeg md = img # rest
        \<and> js_div (width img) (height img) = NaN \<longrightarrow>
      getAspectClass ImageFn imagePath = (None, ''aspect-landscape''))"
  by (simp add: getAspectClass_def cssClass_NaN js_div_def is_inf_def is_zero_def)

theorem getAspectClass_NaN_witness:
  "getAspectClass (\<lambda>p opts. Inr \<lparr>jpeg = [\<lparr>width = Fin 0, height = Fin 0\<rparr>]\<rparr>)
      ''/photos/empty.jpg''
     = (None, ''aspect-landscape'')"
  using getAspectClass_NaN
      [of "\<lambda>p opts. Inr \<lparr>jpeg = [\<lparr>width = Fin 0, height = Fin 0\<rparr>]\<rparr>" "''/photos/empty.jpg''"
        "\<lparr>jpeg = [\<lparr>width = Fin 0, height = Fin 0\<rparr>]\<rparr>"
        "\<lparr>width = Fin 0, height = Fin 0\<rparr>" "[]"]
  by simp

section \<open>Properties of the collections\<close>






text \<open>
  Claim C9. The posts builder and the photos builder are one function, the reversal of
  what the glob filter returns, applied to two different glob patterns. When the
  filter returns equal lists for the two patterns, the two builders return equal
  sequences.
\<close>

theorem posts_photos_same_builder:
  "posts = collection_builder_spec ''src/posts/*.md''
   \<and> photos = collection_builder_spec ''src/photos/*.md''
   \<and> ''src/posts/*.md'' \<noteq> ''src/photos/*.md''
   \<and> (getFilteredByGlob api ''src/posts/*.md'' = getFilteredByGlob api' ''src/photos/*.md''
        \<longrightarrow> posts api = photos api')"
proof -
  have "posts = collection_builder_spec ''src/posts/*.md''"
    by (rule ext) (simp add: posts_def collection_builder_spec_def)
  moreover have "photos = collection_builder_spec ''src/photos/*.md''"
    by (rule ext) (simp add: photos_def collection_builder_spec_def)
  moreover have "''src/posts/*.md'' \<noteq> ''src/photos/*.md''"
    by simp
  moreover have "getFilteredByGlob api ''src/posts/*.md''
      = getFilteredByGlob api' ''src/photos/*.md'' \<longrightarrow> posts api = photos api'"
    by (simp add: posts_def photos_def)
  ultimately show ?thesis by blast
qed

theorem posts_photos_same_builder_witness:
  "posts \<lparr>getFilteredByGlob = (\<lambda>g. [''x.md'', ''y.md''])\<rparr>
     = photos \<lparr>getFilteredByGlob = (\<lambda>g. if g = ''src/photos/*.md''
                 then [''x.md'', ''y.md''] else [])\<rparr>"
proof -
  let ?a = "\<lparr>getFilteredByGlob = (\<lambda>g. [''x.md'', ''y.md''])\<rparr>"
  let ?b = "\<lparr>getFilteredByGlob = (\<lambda>g. if g = ''src/photos/*.md''
                 then [''x.md'', ''y.md''] else [])\<rparr>"
  have "getFilteredByGlob ?a ''src/posts/*.md'' = getFilteredByGlob ?b ''src/photos/*.md''"
    by simp
  with posts_photos_same_builder [of ?a ?b] show ?thesis
    by blast
qed

section \<open>Properties of the filter \<^verbatim>\<open>random\<close>\<close>





text \<open>
  Claim C8. On an empty sequence the filter returns no element: whatever the draw, the
  index read is outside the array and the result is \<^verbatim>\<open>undefined\<close>. The filter does
  not check for the empty sequence, so the callers have to.
\<close>

theorem random_filter_empty:
  "random_filter r [] = None"
  by (simp add: random_filter_def random_index_def js_index_def round64_zero)

section \<open>Properties of the filter \<^verbatim>\<open>readableDate\<close>\<close>

text \<open>
  In the modelled library the zone of the process does reach the result when no zone is
  asked for: the same instant gets two different zones in two processes.
\<close>

lemma fromJSDate_default_zone:
  "fromJSDate \<lparr>defaultZone = utc\<rparr> (ValidDate ts) None
     \<noteq> fromJSDate \<lparr>defaultZone = (\<lambda>t. 60)\<rparr> (ValidDate ts) None"
proof
  assume "fromJSDate \<lparr>defaultZone = utc\<rparr> (ValidDate ts) None
     = fromJSDate \<lparr>defaultZone = (\<lambda>t. 60)\<rparr> (ValidDate ts) None"
  then have "utc = (\<lambda>t. 60::int)"
    by (simp add: fromJSDate_def)
  then have "utc ts = (\<lambda>t. 60::int) ts"
    by (rule fun_cong)
  then show False
    by (simp add: utc_def)
qed

text \<open>
  Claim C6. The filter is a function of the instant alone: two invocations on the same
  instant return the same string, whatever the time zone of the process each one runs
  in. It asks the library for the zone \<^verbatim>\<open>utc\<close>, so the zone of the process never
  enters.
\<close>

theorem readableDate_zone_independent:
  "readableDate toFormat env dateObj = readableDate toFormat env' dateObj"
  by (cases dateObj) (simp_all add: readableDate_def fromJSDate_def)

end
